theory Spec2Isabelle
  imports Main "HOL-Library.Sublist"
begin

section \<open>Values, objects and the profile\<close>

text \<open>
  The hooks of \<^verbatim>\<open>src/hooks/useUserQuery.ts\<close> move one JavaScript object, the profile
  of the current user (type \<^verbatim>\<open>User\<close>), between the query cache, \<^verbatim>\<open>localStorage\<close> and
  the remote API. The code never looks inside a field value, so values are a plain tree;
  numbers are kept as integers because no arithmetic is done on them.

  An object is the list of its own enumerable properties in insertion order, every key
  once. (Keys that look like array indices, which JavaScript orders first, do not occur
  among profile fields.)
\<close>

datatype jsval =
    JUndefined
  | JNull
  | JBool bool
  | JNum int
  | JStr string
  | JArr "jsval list"
  | JObj "(string \<times> jsval) list"

type_synonym jsobject = "(string \<times> jsval) list"

type_synonym User = jsobject

definition wf_object :: "jsobject \<Rightarrow> bool" where
  "wf_object obj = distinct (map fst obj)"

definition get_property :: "jsobject \<Rightarrow> string \<Rightarrow> jsval option" where
  "get_property obj k = map_of obj k"

text \<open>\<^verbatim>\<open>Object.keys(obj)\<close>.\<close>

definition Object_keys :: "jsobject \<Rightarrow> string list" where
  "Object_keys obj = map fst obj"

text \<open>
  \<^verbatim>\<open>obj[k] = v\<close> on a fresh object under construction: an existing property keeps its
  position and takes the new value, a new property goes to the end.
\<close>

fun set_property :: "string \<Rightarrow> jsval \<Rightarrow> jsobject \<Rightarrow> jsobject" where
  "set_property k v [] = [(k, v)]"
| "set_property k v ((k', v') # ps) =
     (if k' = k then (k, v) # ps else (k', v') # set_property k v ps)"

text \<open>
  One spread element \<^verbatim>\<open>...source\<close> inside an object literal: the properties of
  \<^verbatim>\<open>source\<close> are copied onto the object built so far, in order.
\<close>

definition spread :: "jsobject \<Rightarrow> jsobject \<Rightarrow> jsobject" where
  "spread target source = fold (\<lambda>(k, v) acc. set_property k v acc) source target"

text \<open>The literal \<^verbatim>\<open>{ ...a, ...b }\<close>.\<close>

definition object_literal_spread2 :: "jsobject \<Rightarrow> jsobject \<Rightarrow> jsobject" where
  "object_literal_spread2 a b = spread (spread [] a) b"

section \<open>Errors, promises and completions\<close>

text \<open>
  \<^verbatim>\<open>new Error(error || '...')\<close> in the fetcher carries either the remote error text or
  the fixed fallback text of the source (a non-ASCII literal, kept as a constructor).
\<close>

datatype message = Text string | FetchUserFailedText

datatype js_error =
    Error message
  | ReferenceError string
  | SyntaxError string
  | QuotaExceededError

text \<open>How an awaited promise of an external collaborator settles.\<close>

datatype 'a settled = Resolved 'a | Rejected js_error

text \<open>How a function of the source completes: it returns, or an exception leaves it.\<close>

datatype 'a completion = Returned 'a | Threw js_error

section \<open>The world the hooks act on\<close>

text \<open>
  The query client of the external library \<^verbatim>\<open>@tanstack/react-query\<close> is used through
  five operations. Each is modelled by its documented effect on the cache: a cache entry
  holds the payload, the invalidation mark, whether a fetch is in flight, and whether the
  query is observed (a mounted, enabled \<^verbatim>\<open>useQuery\<close> reads it); filters match a key
  by prefix. \<^verbatim>\<open>invalidateQueries\<close> sets the mark on every matching entry and, inside
  the call, starts the refetch of those that are observed; the refetch settles in a later
  task, not in the handler's run. \<^verbatim>\<open>setQueryData\<close> on a key without entry creates an
  entry that nobody observes.
\<close>

type_synonym query_key = "string list"

record query_state =
  q_data :: "User option"
  q_isInvalidated :: bool
  q_fetching :: bool
  q_observed :: bool

type_synonym query_cache = "query_key \<rightharpoonup> query_state"

definition getQueryData :: "query_key \<Rightarrow> query_cache \<Rightarrow> User option" where
  "getQueryData key c = (case c key of None \<Rightarrow> None | Some q \<Rightarrow> q_data q)"

definition setQueryData :: "query_key \<Rightarrow> User \<Rightarrow> query_cache \<Rightarrow> query_cache" where
  "setQueryData key d c =
     c(key \<mapsto>
       (case c key of
          None \<Rightarrow>
            \<lparr>q_data = Some d, q_isInvalidated = False, q_fetching = False,
             q_observed = False\<rparr>
        | Some q \<Rightarrow> q\<lparr>q_data := Some d, q_isInvalidated := False\<rparr>))"

definition cancelQueries :: "query_key \<Rightarrow> query_cache \<Rightarrow> query_cache" where
  "cancelQueries filter_key c =
     (\<lambda>k. case c k of
            None \<Rightarrow> None
          | Some q \<Rightarrow> if prefix filter_key k then Some (q\<lparr>q_fetching := False\<rparr>) else Some q)"

definition invalidateQueries :: "query_key \<Rightarrow> query_cache \<Rightarrow> query_cache" where
  "invalidateQueries filter_key c =
     (\<lambda>k. case c k of
            None \<Rightarrow> None
          | Some q \<Rightarrow>
              if prefix filter_key k
              then Some (q\<lparr>q_isInvalidated := True, q_fetching := q_fetching q \<or> q_observed q\<rparr>)
              else Some q)"

definition removeQueries :: "query_key \<Rightarrow> query_cache \<Rightarrow> query_cache" where
  "removeQueries filter_key c = (\<lambda>k. if prefix filter_key k then None else c k)"

text \<open>What the handlers write to the console and show as toasts.\<close>

datatype console_entry =
    Warn_parse_local_user_failed js_error
  | Error_update_user_failed js_error
  | Error_logout_failed js_error

datatype toast =
    Toast_error_update_failed_retry
  | Toast_success_updated_fields nat
  | Toast_success_logged_out
  | Toast_error_logout_failed

text \<open>
  \<^verbatim>\<open>window_defined\<close> is \<^verbatim>\<open>typeof window !== 'undefined'\<close>. \<^verbatim>\<open>localStorage\<close> is a
  string-keyed store of strings. The platform refuses a write that does not fit the quota
  of the store: \<^verbatim>\<open>storage_has_room k v\<close> says whether it would take the value \<open>v\<close>
  under the key \<open>k\<close> now; when it would not, \<^verbatim>\<open>setItem\<close> throws a
  \<^verbatim>\<open>QuotaExceededError\<close> and stores nothing. \<^verbatim>\<open>location_href\<close> is
  \<^verbatim>\<open>window.location.href\<close>.
\<close>

record world =
  queryCache :: query_cache
  window_defined :: bool
  localStorage :: "string \<rightharpoonup> string"
  storage_has_room :: "string \<Rightarrow> string \<Rightarrow> bool"
  location_href :: string
  console :: "console_entry list"
  toasts :: "toast list"

definition localStorage_setItem ::
  "string \<Rightarrow> string \<Rightarrow> world \<Rightarrow> unit completion \<times> world" where
  "localStorage_setItem k v w =
     (if storage_has_room w k v
      then (Returned (), w\<lparr>localStorage := (localStorage w)(k \<mapsto> v)\<rparr>)
      else (Threw QuotaExceededError, w))"

definition localStorage_removeItem :: "string \<Rightarrow> world \<Rightarrow> world" where
  "localStorage_removeItem k w = w\<lparr>localStorage := (localStorage w)(k := None)\<rparr>"

definition console_log :: "console_entry \<Rightarrow> world \<Rightarrow> world" where
  "console_log e w = w\<lparr>console := console w @ [e]\<rparr>"

definition toast_show :: "toast \<Rightarrow> world \<Rightarrow> world" where
  "toast_show t w = w\<lparr>toasts := toasts w @ [t]\<rparr>"

section \<open>Query keys\<close>

definition userQueryKeys_user :: query_key where
  "userQueryKeys_user = [''user'']"

definition userQueryKeys_profile :: query_key where
  "userQueryKeys_profile = userQueryKeys_user @ [''profile'']"

section \<open>useUpdateUserMutation\<close>

record update_context =
  previousUser :: "User option"

text \<open>
  \<^verbatim>\<open>onMutate\<close> is an \<^verbatim>\<open>async\<close> function whose first statement awaits
  \<^verbatim>\<open>cancelQueries\<close> (line 66). When it is invoked it runs up to that await: the fetches
  of the profile key are cancelled, and the function is suspended
  (\<open>useUpdateUserMutation_onMutate_start\<close>). The rest, the read of the cache and the
  optimistic write, runs in a later task, once the promise of the call has resolved
  (\<open>useUpdateUserMutation_onMutate_resume\<close>). The library calls \<^verbatim>\<open>mutationFn\<close> only
  after the whole handler has completed; \<open>useUpdateUserMutation_onMutate\<close> is the
  completed handler when no other task changes the world during the await.
\<close>

definition useUpdateUserMutation_onMutate_start :: "User \<Rightarrow> world \<Rightarrow> world" where
  "useUpdateUserMutation_onMutate_start updates w =
     w\<lparr>queryCache := cancelQueries userQueryKeys_profile (queryCache w)\<rparr>"

definition useUpdateUserMutation_onMutate_resume ::
  "User \<Rightarrow> world \<Rightarrow> update_context completion \<times> world" where
  "useUpdateUserMutation_onMutate_resume updates w1 =
     (let prev = getQueryData userQueryKeys_profile (queryCache w1);
          w2 = (case prev of
                  Some p \<Rightarrow>
                    w1\<lparr>queryCache :=
                         setQueryData userQueryKeys_profile
                           (object_literal_spread2 p updates) (queryCache w1)\<rparr>
                | None \<Rightarrow> w1)
      in (Returned \<lparr>previousUser = prev\<rparr>, w2))"

definition useUpdateUserMutation_onMutate ::
  "User \<Rightarrow> world \<Rightarrow> update_context completion \<times> world" where
  "useUpdateUserMutation_onMutate updates w =
     useUpdateUserMutation_onMutate_resume updates
       (useUpdateUserMutation_onMutate_start updates w)"

definition useUpdateUserMutation_onError ::
  "js_error \<Rightarrow> User \<Rightarrow> update_context option \<Rightarrow> world \<Rightarrow> unit completion \<times> world" where
  "useUpdateUserMutation_onError error variables context w =
     (let w1 = (case context of
                  None \<Rightarrow> w
                | Some ctx \<Rightarrow>
                    (case previousUser ctx of
                       None \<Rightarrow> w
                     | Some p \<Rightarrow>
                         w\<lparr>queryCache :=
                              setQueryData userQueryKeys_profile p (queryCache w)\<rparr>));
          w2 = console_log (Error_update_user_failed error) w1;
          w3 = toast_show Toast_error_update_failed_retry w2
      in (Returned (), w3))"

text \<open>
  \<^verbatim>\<open>JSON.stringify\<close> is a function of the platform; the handlers that persist the
  profile take it as the parameter \<open>stringify\<close>. The write of line 99 is not inside a
  \<^verbatim>\<open>try\<close>: when \<^verbatim>\<open>setItem\<close> throws, the exception leaves the handler and the
  statements after it do not run.
\<close>

definition useUpdateUserMutation_onSuccess ::
  "(User \<Rightarrow> string) \<Rightarrow> jsval \<Rightarrow> User \<Rightarrow> world \<Rightarrow> unit completion \<times> world" where
  "useUpdateUserMutation_onSuccess stringify data variables w =
     (let w1 = w\<lparr>queryCache := invalidateQueries userQueryKeys_profile (queryCache w)\<rparr>;
          currentUser = getQueryData userQueryKeys_profile (queryCache w1);
          stored = (case currentUser of
                      Some u \<Rightarrow>
                        if window_defined w1
                        then localStorage_setItem ''user_profile'' (stringify u) w1
                        else (Returned (), w1)
                    | None \<Rightarrow> (Returned (), w1))
      in case stored of
           (Threw e, w2) \<Rightarrow> (Threw e, w2)
         | (Returned _, w2) \<Rightarrow>
             (let updatedFieldsCount = length (Object_keys variables);
                  w3 = toast_show (Toast_success_updated_fields updatedFieldsCount) w2
              in (Returned (), w3)))"

section \<open>Running a mutation\<close>

text \<open>
  \<^verbatim>\<open>useMutation\<close> of the query library runs the handlers of a mutation in a fixed
  order: \<^verbatim>\<open>onMutate\<close>, then \<^verbatim>\<open>mutationFn\<close>; when its promise resolves,
  \<^verbatim>\<open>onSuccess\<close>; when it rejects, or when a handler throws, \<^verbatim>\<open>onError\<close> with the
  context that \<^verbatim>\<open>onMutate\<close> returned, and the error is passed on to the caller. Both
  \<^verbatim>\<open>mutationFn\<close>s of the source only await a call of the request layer, which is not
  among the sources: how that promise settles is the parameter \<open>outcome\<close>. Whatever value
  it resolves with, also one that carries an \<^verbatim>\<open>error\<close> field, the mutation has
  succeeded for the library.
\<close>

definition settle_error ::
  "(js_error \<Rightarrow> 'v \<Rightarrow> 'c option \<Rightarrow> world \<Rightarrow> unit completion \<times> world) \<Rightarrow>
   js_error \<Rightarrow> 'v \<Rightarrow> 'c option \<Rightarrow> world \<Rightarrow> 'd completion \<times> world" where
  "settle_error onError e variables context w =
     (case onError e variables context w of
        (Returned _, w') \<Rightarrow> (Threw e, w')
      | (Threw e', w') \<Rightarrow> (Threw e', w'))"

definition mutation_execute ::
  "('v \<Rightarrow> world \<Rightarrow> 'c completion \<times> world) \<Rightarrow>
   'd settled \<Rightarrow>
   ('d \<Rightarrow> 'v \<Rightarrow> 'c \<Rightarrow> world \<Rightarrow> unit completion \<times> world) \<Rightarrow>
   (js_error \<Rightarrow> 'v \<Rightarrow> 'c option \<Rightarrow> world \<Rightarrow> unit completion \<times> world) \<Rightarrow>
   'v \<Rightarrow> world \<Rightarrow> 'd completion \<times> world" where
  "mutation_execute onMutate outcome onSuccess onError variables w =
     (case onMutate variables w of
        (Threw e, w1) \<Rightarrow> settle_error onError e variables None w1
      | (Returned context, w1) \<Rightarrow>
          (case outcome of
             Rejected e \<Rightarrow> settle_error onError e variables (Some context) w1
           | Resolved d \<Rightarrow>
               (case onSuccess d variables context w1 of
                  (Returned _, w2) \<Rightarrow> (Returned d, w2)
                | (Threw e, w2) \<Rightarrow> settle_error onError e variables (Some context) w2)))"

definition useUpdateUserMutation ::
  "(User \<Rightarrow> string) \<Rightarrow> jsval settled \<Rightarrow> User \<Rightarrow> world \<Rightarrow> jsval completion \<times> world" where
  "useUpdateUserMutation stringify outcome updates w =
     mutation_execute
       useUpdateUserMutation_onMutate
       outcome
       (\<lambda>data variables context. useUpdateUserMutation_onSuccess stringify data variables)
       useUpdateUserMutation_onError
       updates w"

section \<open>useLogoutMutation\<close>

text \<open>
  The success handler guards the storage calls with \<^verbatim>\<open>typeof window\<close> and then
  assigns \<^verbatim>\<open>window.location.href\<close> without a guard: where \<^verbatim>\<open>window\<close> is not
  defined, that statement throws a \<^verbatim>\<open>ReferenceError\<close>.
\<close>

definition useLogoutMutation_onSuccess :: "world \<Rightarrow> unit completion \<times> world" where
  "useLogoutMutation_onSuccess w =
     (let w1 = w\<lparr>queryCache := removeQueries userQueryKeys_user (queryCache w)\<rparr>;
          w2 = (if window_defined w1
                then (let a = localStorage_removeItem ''user_profile'' w1;
                          b = localStorage_removeItem ''auth_token'' a;
                          c = localStorage_removeItem ''refresh_token'' b;
                          d = localStorage_removeItem ''expires_in'' c
                      in localStorage_removeItem ''refresh_expires_in'' d)
                else w1);
          w3 = toast_show Toast_success_logged_out w2
      in if window_defined w3
         then (Returned (), w3\<lparr>location_href := ''/auth''\<rparr>)
         else (Threw (ReferenceError ''window''), w3))"

definition useLogoutMutation_onError :: "js_error \<Rightarrow> world \<Rightarrow> unit completion \<times> world" where
  "useLogoutMutation_onError error w =
     (let w1 = console_log (Error_logout_failed error) w;
          w2 = toast_show Toast_error_logout_failed w1
      in (Returned (), w2))"

definition useLogoutMutation :: "jsval settled \<Rightarrow> world \<Rightarrow> jsval completion \<times> world" where
  "useLogoutMutation outcome w =
     mutation_execute
       (\<lambda>variables w'. (Returned (), w'))
       outcome
       (\<lambda>data variables context. useLogoutMutation_onSuccess)
       (\<lambda>error variables context. useLogoutMutation_onError error)
       () w"

section \<open>useUserQuery\<close>





text \<open>Times are in milliseconds, as in the source.\<close>

record query_options =
  queryKey :: query_key
  staleTime :: nat
  gcTime :: nat
  refetchOnWindowFocus :: bool
  retry :: nat

definition useUserQuery_options :: query_options where
  "useUserQuery_options =
     \<lparr>queryKey = userQueryKeys_profile,
      staleTime = 5 * 60 * 1000,
      gcTime = 30 * 60 * 1000,
      refetchOnWindowFocus = False,
      retry = 3\<rparr>"

section \<open>getLocalUserData\<close>

text \<open>
  \<^verbatim>\<open>JSON.parse\<close> is a function of the platform, the parameter \<open>parse\<close>: it returns
  the value or throws. The body of the \<^verbatim>\<open>try\<close> block either returns a value from
  the function (\<open>Some v\<close>), falls through to the statement after the block (\<open>None\<close>),
  or throws into the \<^verbatim>\<open>catch\<close>.
\<close>

definition getLocalUserData_try ::
  "(string \<Rightarrow> js_error + jsval) \<Rightarrow> world \<Rightarrow> jsval option completion" where
  "getLocalUserData_try parse w =
     (case localStorage w ''user_profile'' of
        None \<Rightarrow> Returned None
      | Some cachedUser \<Rightarrow>
          if cachedUser \<noteq> []
          then (case parse cachedUser of
                  Inl e \<Rightarrow> Threw e
                | Inr v \<Rightarrow> Returned (Some v))
          else Returned None)"

definition getLocalUserData ::
  "(string \<Rightarrow> js_error + jsval) \<Rightarrow> world \<Rightarrow> jsval option completion \<times> world" where
  "getLocalUserData parse w =
     (if \<not> window_defined w then (Returned None, w)
      else (case getLocalUserData_try parse w of
              Returned (Some v) \<Rightarrow> (Returned (Some v), w)
            | Returned None \<Rightarrow> (Returned None, w)
            | Threw error \<Rightarrow>
                (Returned None, console_log (Warn_parse_local_user_failed error) w)))"

section \<open>The read path of the cache\<close>

text \<open>
  Modelled from the spec: the Resource Cache entry of the profile key (specification,
  section 3 and section 4.1). Reading through the cache is done by the query library and
  is not among the sources; \<^verbatim>\<open>useUserQuery\<close> only hands the library the key, the
  fetcher and the options. The entry holds the payload, the time of the last fetch, the
  invalidation mark and the in-flight flag. To record what happens, the model also keeps
  the readers that await the fetch in flight, the number of fetcher calls so far, and what
  each read resolved to.
\<close>

record resource_cache =
  rc_payload :: "User option"
  rc_lastFetched :: nat
  rc_invalidated :: bool
  rc_inFlight :: bool
  rc_awaiting :: "nat list"
  rc_fetches :: nat
  rc_resolved :: "(nat \<times> User completion) list"

text \<open>
  Modelled from the spec: steps 1 and 4 of \<^verbatim>\<open>read\<close> (section 4.1), the test that is
  missing from the sources. An entry is served without a fetch when it has a payload, is
  not invalidated, is younger than the staleness threshold, and has not reached the expiry
  threshold, which is the option \<^verbatim>\<open>gcTime\<close>. Times are in milliseconds.
\<close>

definition entry_fresh :: "query_options \<Rightarrow> nat \<Rightarrow> resource_cache \<Rightarrow> bool" where
  "entry_fresh options now c =
     (rc_payload c \<noteq> None \<and> \<not> rc_invalidated c
      \<and> now - rc_lastFetched c < staleTime options
      \<and> \<not> gcTime options \<le> now - rc_lastFetched c)"


text \<open>
  Modelled from the spec: the start of \<^verbatim>\<open>read\<close> (section 4.1, steps 1 to 3), missing
  from the sources, for a read by \<open>reader\<close> at time \<open>now\<close>. A fresh entry resolves the
  read at once; otherwise the read awaits the fetch in flight, or marks the entry in
  flight and calls the fetcher.
\<close>

definition read_begin :: "query_options \<Rightarrow> nat \<Rightarrow> nat \<Rightarrow> resource_cache \<Rightarrow> resource_cache" where
  "read_begin options reader now c =
     (if entry_fresh options now c
      then (case rc_payload c of
              Some p \<Rightarrow> c\<lparr>rc_resolved := rc_resolved c @ [(reader, Returned p)]\<rparr>
            | None \<Rightarrow> c)
      else if rc_inFlight c
      then c\<lparr>rc_awaiting := rc_awaiting c @ [reader]\<rparr>
      else c\<lparr>rc_inFlight := True,
             rc_fetches := Suc (rc_fetches c),
             rc_awaiting := rc_awaiting c @ [reader]\<rparr>)"

text \<open>
  Modelled from the spec: the end of step 3 of \<^verbatim>\<open>read\<close> and \<^verbatim>\<open>set\<close> (section
  4.1), missing from the sources. When the fetch in flight succeeds, the payload is set,
  the time of the last fetch is reset, and every awaiting read resolves to the payload;
  when it fails, the entry is not changed and every awaiting read gets the error.
\<close>

definition fetch_settles :: "User settled \<Rightarrow> nat \<Rightarrow> resource_cache \<Rightarrow> resource_cache" where
  "fetch_settles outcome now c =
     (if \<not> rc_inFlight c then c
      else (case outcome of
              Resolved p \<Rightarrow>
                c\<lparr>rc_payload := Some p,
                  rc_lastFetched := now,
                  rc_invalidated := False,
                  rc_inFlight := False,
                  rc_awaiting := [],
                  rc_resolved := rc_resolved c @ map (\<lambda>r. (r, Returned p)) (rc_awaiting c)\<rparr>
            | Rejected e \<Rightarrow>
                c\<lparr>rc_inFlight := False,
                  rc_awaiting := [],
                  rc_resolved := rc_resolved c @ map (\<lambda>r. (r, Threw e)) (rc_awaiting c)\<rparr>))"

text \<open>
  Modelled from the spec: concurrent reads in the single-threaded model of section 5,
  missing from the sources. The reads, each a reader and the time of its read, begin one
  after the other, and no fetch settles between them.
\<close>

fun read_all :: "query_options \<Rightarrow> (nat \<times> nat) list \<Rightarrow> resource_cache \<Rightarrow> resource_cache" where
  "read_all options [] c = c"
| "read_all options ((reader, now) # rs) c = read_all options rs (read_begin options reader now c)"

section \<open>Example data\<close>

text \<open>
  The profile and the update named in the specification's testable properties, a browser
  session that holds the profile and all five persisted keys, a cold session with nothing
  cached, the same browser session with a store that takes no more writes, and the value
  the request layer resolves with when the remote update fails (the form the fetcher
  tests on line 21). \<open>example_stringify\<close> and \<open>example_parse\<close> stand in for the
  platform's JSON functions in the examples only: the first writes the keys of an object,
  the second reads the text \<^verbatim>\<open>{}\<close> and rejects every other text.
\<close>

definition example_bob :: User where
  "example_bob = [(''name'', JStr ''Bob''), (''email'', JStr ''b@x.com'')]"

definition example_update_alice :: User where
  "example_update_alice = [(''name'', JStr ''Alice'')]"

definition example_stringify :: "User \<Rightarrow> string" where
  "example_stringify u = concat (map (\<lambda>(k, v). k @ '';'') u)"

definition example_parse :: "string \<Rightarrow> js_error + jsval" where
  "example_parse s = (if s = ''{}'' then Inr (JObj []) else Inl (SyntaxError s))"

definition example_storage :: "string \<rightharpoonup> string" where
  "example_storage =
     [''user_profile'' \<mapsto> ''{}'',
      ''auth_token'' \<mapsto> ''t1'',
      ''refresh_token'' \<mapsto> ''t2'',
      ''expires_in'' \<mapsto> ''3600'',
      ''refresh_expires_in'' \<mapsto> ''86400'']"

definition example_world :: world where
  "example_world =
     \<lparr>queryCache =
        [userQueryKeys_profile \<mapsto>
           \<lparr>q_data = Some example_bob, q_isInvalidated = False, q_fetching = False,
            q_observed = True\<rparr>],
      window_defined = True,
      localStorage = example_storage,
      storage_has_room = (\<lambda>k v. True),
      location_href = ''/dashboard'',
      console = [],
      toasts = []\<rparr>"

definition example_cold_world :: world where
  "example_cold_world =
     \<lparr>queryCache = Map.empty,
      window_defined = True,
      localStorage = example_storage,
      storage_has_room = (\<lambda>k v. True),
      location_href = ''/dashboard'',
      console = [],
      toasts = []\<rparr>"


definition example_update_result_error :: jsval where
  "example_update_result_error = JObj [(''data'', JNull), (''error'', JStr ''500'')]"




definition example_resource_cache :: resource_cache where
  "example_resource_cache =
     \<lparr>rc_payload = Some example_bob, rc_lastFetched = 0, rc_invalidated = False,
      rc_inFlight = False, rc_awaiting = [], rc_fetches = 0, rc_resolved = []\<rparr>"

definition example_empty_resource_cache :: resource_cache where
  "example_empty_resource_cache =
     \<lparr>rc_payload = None, rc_lastFetched = 0, rc_invalidated = False,
      rc_inFlight = False, rc_awaiting = [], rc_fetches = 0, rc_resolved = []\<rparr>"

section \<open>Objects: facts about the spread\<close>

lemma map_of_set_property:
  "map_of (set_property k v obj) = (map_of obj)(k \<mapsto> v)"
  by (induction obj) (auto simp: fun_eq_iff)

lemma keys_set_property:
  "fst ` set (set_property k v obj) = insert k (fst ` set obj)"
  by (induction k v obj rule: set_property.induct) (simp_all add: insert_commute)

lemma distinct_set_property:
  "distinct (map fst obj) \<Longrightarrow> distinct (map fst (set_property k v obj))"
proof (induction obj)
  case Nil
  then show ?case by simp
next
  case (Cons p obj)
  obtain k' v' where p: "p = (k', v')" by (cases p)
  show ?case
  proof (cases "k' = k")
    case True
    with Cons.prems p show ?thesis by simp
  next
    case False
    from Cons.prems p have "k' \<notin> fst ` set obj" and "distinct (map fst obj)" by auto
    with False Cons.IH p show ?thesis
      by (simp add: keys_set_property)
  qed
qed

lemma map_of_spread:
  "distinct (map fst source) \<Longrightarrow>
   map_of (spread target source) = map_of target ++ map_of source"
  unfolding spread_def
proof (induction source arbitrary: target)
  case Nil
  then show ?case by simp
next
  case (Cons kv source)
  obtain k v where kv: "kv = (k, v)" by (cases kv)
  from Cons.prems kv have notin: "k \<notin> fst ` set source" and d: "distinct (map fst source)"
    by auto
  have none: "map_of source k = None"
    using notin by (simp add: map_of_eq_None_iff)
  have step: "fold (\<lambda>(k, v) acc. set_property k v acc) (kv # source) target =
      fold (\<lambda>(k, v) acc. set_property k v acc) source (set_property k v target)"
    using kv by simp
  have eq: "map_of (set_property k v target) ++ map_of source = map_of target ++ map_of (kv # source)"
  proof
    fix x
    show "(map_of (set_property k v target) ++ map_of source) x =
          (map_of target ++ map_of (kv # source)) x"
      using none kv by (cases "map_of source x") (auto simp: map_of_set_property map_add_def)
  qed
  have "map_of (fold (\<lambda>(k, v) acc. set_property k v acc) source (set_property k v target))
        = map_of (set_property k v target) ++ map_of source"
    by (rule Cons.IH [OF d])
  with eq step show ?case by (simp only:)
qed

lemma wf_object_spread:
  "wf_object target \<Longrightarrow> wf_object (spread target source)"
  unfolding spread_def wf_object_def
  by (induction source arbitrary: target) (auto simp: distinct_set_property)

lemma map_of_object_literal_spread2:
  assumes "wf_object a" and "wf_object b"
  shows "map_of (object_literal_spread2 a b) = map_of a ++ map_of b"
  using assms unfolding object_literal_spread2_def wf_object_def
  by (simp add: map_of_spread)

lemma wf_object_literal_spread2: "wf_object (object_literal_spread2 a b)"
  unfolding object_literal_spread2_def
  by (intro wf_object_spread) (simp add: wf_object_def)

section \<open>The query client: facts about the cache operations\<close>

lemma getQueryData_setQueryData_same [simp]:
  "getQueryData key (setQueryData key d c) = Some d"
  by (simp add: getQueryData_def setQueryData_def split: option.splits)

lemma getQueryData_cancelQueries [simp]:
  "getQueryData key (cancelQueries f c) = getQueryData key c"
  by (simp add: getQueryData_def cancelQueries_def split: option.splits)

lemma getQueryData_invalidateQueries [simp]:
  "getQueryData key (invalidateQueries f c) = getQueryData key c"
  by (simp add: getQueryData_def invalidateQueries_def split: option.splits)

section \<open>The optimistic step\<close>

lemma onMutate_cached:
  assumes "getQueryData userQueryKeys_profile (queryCache w) = Some p"
  shows "useUpdateUserMutation_onMutate u w =
     (Returned \<lparr>previousUser = Some p\<rparr>,
      w\<lparr>queryCache := setQueryData userQueryKeys_profile (object_literal_spread2 p u)
          (cancelQueries userQueryKeys_profile (queryCache w))\<rparr>)"
  using assms
  by (simp add: useUpdateUserMutation_onMutate_def useUpdateUserMutation_onMutate_start_def
      useUpdateUserMutation_onMutate_resume_def Let_def)

lemma onMutate_not_cached:
  assumes "getQueryData userQueryKeys_profile (queryCache w) = None"
  shows "useUpdateUserMutation_onMutate u w =
     (Returned \<lparr>previousUser = None\<rparr>,
      w\<lparr>queryCache := cancelQueries userQueryKeys_profile (queryCache w)\<rparr>)"
  using assms
  by (simp add: useUpdateUserMutation_onMutate_def useUpdateUserMutation_onMutate_start_def
      useUpdateUserMutation_onMutate_resume_def Let_def)

lemma onMutate_returns:
  "fst (useUpdateUserMutation_onMutate u w)
     = Returned \<lparr>previousUser = getQueryData userQueryKeys_profile (queryCache w)\<rparr>"
  by (simp add: useUpdateUserMutation_onMutate_def useUpdateUserMutation_onMutate_start_def
      useUpdateUserMutation_onMutate_resume_def Let_def)

section \<open>Running the two mutations\<close>

lemma getQueryData_setQueryData_other:
  "key' \<noteq> key \<Longrightarrow> getQueryData key' (setQueryData key d c) = getQueryData key' c"
  by (simp add: getQueryData_def setQueryData_def)

lemma run_update_Rejected:
  "useUpdateUserMutation stringify (Rejected e) u w =
     (case useUpdateUserMutation_onMutate u w of
        (Returned ctx, w1) \<Rightarrow>
          (Threw e, snd (useUpdateUserMutation_onError e u (Some ctx) w1))
      | (Threw e', w1) \<Rightarrow> (Threw e', snd (useUpdateUserMutation_onError e' u None w1)))"
  by (simp add: useUpdateUserMutation_def mutation_execute_def settle_error_def
      useUpdateUserMutation_onMutate_def useUpdateUserMutation_onMutate_start_def
      useUpdateUserMutation_onMutate_resume_def useUpdateUserMutation_onError_def Let_def
      split: option.splits)

lemma settle_error_update:
  "settle_error useUpdateUserMutation_onError e u ctx w
     = (Threw e, snd (useUpdateUserMutation_onError e u ctx w))"
  by (simp add: settle_error_def useUpdateUserMutation_onError_def Let_def)

lemma run_update_Resolved:
  "useUpdateUserMutation stringify (Resolved d) u w =
     (case useUpdateUserMutation_onSuccess stringify d u
             (snd (useUpdateUserMutation_onMutate u w)) of
        (Returned _, w2) \<Rightarrow> (Returned d, w2)
      | (Threw e, w2) \<Rightarrow>
          (Threw e,
           snd (useUpdateUserMutation_onError e u
                  (Some \<lparr>previousUser = getQueryData userQueryKeys_profile (queryCache w)\<rparr>)
                  w2)))"
proof -
  obtain w1 where m: "useUpdateUserMutation_onMutate u w
      = (Returned \<lparr>previousUser = getQueryData userQueryKeys_profile (queryCache w)\<rparr>, w1)"
    using onMutate_returns [of u w] by (cases "useUpdateUserMutation_onMutate u w") simp
  obtain r w2 where s: "useUpdateUserMutation_onSuccess stringify d u w1 = (r, w2)"
    by (cases "useUpdateUserMutation_onSuccess stringify d u w1")
  show ?thesis
    using m s
    by (cases r) (simp_all add: useUpdateUserMutation_def mutation_execute_def
        settle_error_update)
qed

lemma queryCache_console_log [simp]: "queryCache (console_log x w) = queryCache w"
  by (simp add: console_log_def)

lemma queryCache_toast_show [simp]: "queryCache (toast_show x w) = queryCache w"
  by (simp add: toast_show_def)

lemma onError_cache:
  "queryCache (snd (useUpdateUserMutation_onError e u ctx w)) =
     (case ctx of
        None \<Rightarrow> queryCache w
      | Some c \<Rightarrow>
          (case previousUser c of
             None \<Rightarrow> queryCache w
           | Some p \<Rightarrow> setQueryData userQueryKeys_profile p (queryCache w)))"
  by (simp add: useUpdateUserMutation_onError_def Let_def split: option.splits)



lemma onSuccess_written:
  assumes "getQueryData userQueryKeys_profile (queryCache w) = Some cur"
    and "window_defined w"
    and "storage_has_room w ''user_profile'' (stringify cur)"
  shows "useUpdateUserMutation_onSuccess stringify d u w =
     (Returned (),
      w\<lparr>queryCache := invalidateQueries userQueryKeys_profile (queryCache w),
        localStorage := (localStorage w)(''user_profile'' \<mapsto> stringify cur),
        toasts := toasts w @ [Toast_success_updated_fields (length (Object_keys u))]\<rparr>)"
  using assms
  by (simp add: useUpdateUserMutation_onSuccess_def Let_def toast_show_def
      localStorage_setItem_def)







lemma run_logout_Resolved:
  "useLogoutMutation (Resolved d) w =
     (case useLogoutMutation_onSuccess w of
        (Returned _, w1) \<Rightarrow> (Returned d, w1)
      | (Threw e, w1) \<Rightarrow> (Threw e, snd (useLogoutMutation_onError e w1)))"
  by (simp add: useLogoutMutation_def mutation_execute_def settle_error_def
      useLogoutMutation_onError_def Let_def split: prod.splits completion.splits)

lemma run_logout_Rejected:
  "useLogoutMutation (Rejected e) w = (Threw e, snd (useLogoutMutation_onError e w))"
  by (simp add: useLogoutMutation_def mutation_execute_def settle_error_def
      useLogoutMutation_onError_def Let_def)

lemma logout_onSuccess_browser:
  "window_defined w \<Longrightarrow>
   useLogoutMutation_onSuccess w =
     (Returned (),
      w\<lparr>queryCache := removeQueries userQueryKeys_user (queryCache w),
        localStorage := (localStorage w)
          (''user_profile'' := None, ''auth_token'' := None, ''refresh_token'' := None,
           ''expires_in'' := None, ''refresh_expires_in'' := None),
        toasts := toasts w @ [Toast_success_logged_out],
        location_href := ''/auth''\<rparr>)"
  by (simp add: useLogoutMutation_onSuccess_def Let_def localStorage_removeItem_def
      toast_show_def)

lemma logout_onError_world:
  "snd (useLogoutMutation_onError e w) =
     w\<lparr>console := console w @ [Error_logout_failed e],
       toasts := toasts w @ [Toast_error_logout_failed]\<rparr>"
  by (simp add: useLogoutMutation_onError_def Let_def console_log_def toast_show_def)

section \<open>The read path: reads while a fetch is in flight\<close>

lemma entry_fresh_inFlight [simp]:
  "entry_fresh options now (c\<lparr>rc_inFlight := b\<rparr>) = entry_fresh options now c"
  by (simp add: entry_fresh_def)

lemma entry_fresh_fetches [simp]:
  "entry_fresh options now (c\<lparr>rc_fetches := n\<rparr>) = entry_fresh options now c"
  by (simp add: entry_fresh_def)

lemma entry_fresh_awaiting [simp]:
  "entry_fresh options now (c\<lparr>rc_awaiting := a\<rparr>) = entry_fresh options now c"
  by (simp add: entry_fresh_def)

lemma read_all_inFlight:
  assumes "rc_inFlight c" and "\<forall>(r, t) \<in> set rs. \<not> entry_fresh options t c"
  shows "read_all options rs c = c\<lparr>rc_awaiting := rc_awaiting c @ map fst rs\<rparr>"
  using assms
proof (induction rs arbitrary: c)
  case Nil
  then show ?case by simp
next
  case (Cons rt rs)
  obtain r t where rt: "rt = (r, t)" by (cases rt)
  let ?c1 = "c\<lparr>rc_awaiting := rc_awaiting c @ [r]\<rparr>"
  from Cons.prems rt have step: "read_begin options r t c = ?c1"
    by (simp add: read_begin_def)
  have "rc_inFlight ?c1" using Cons.prems by simp
  moreover have "\<forall>(r, t) \<in> set rs. \<not> entry_fresh options t ?c1"
    using Cons.prems by auto
  ultimately have "read_all options rs ?c1 = ?c1\<lparr>rc_awaiting := rc_awaiting ?c1 @ map fst rs\<rparr>"
    by (rule Cons.IH)
  then show ?case using rt step by simp
qed

section \<open>Claims\<close>

subsection \<open>Logout\<close>

text \<open>
  C1, as stated, fails. When the promise of the remote logout call rejects, the library
  runs only the error handler: in the example session the cached profile, the persisted
  profile, the access token and the address stay as they were.
\<close>

theorem logout_rejected_counterexample:
  "getQueryData userQueryKeys_profile
      (queryCache (snd (useLogoutMutation (Rejected (Error (Text ''503''))) example_world)))
     = Some example_bob
   \<and> localStorage (snd (useLogoutMutation (Rejected (Error (Text ''503''))) example_world))
       ''auth_token'' = Some ''t1''
   \<and> localStorage (snd (useLogoutMutation (Rejected (Error (Text ''503''))) example_world))
       ''user_profile'' = Some ''{}''
   \<and> location_href (snd (useLogoutMutation (Rejected (Error (Text ''503''))) example_world))
       = ''/dashboard''"
  by (simp add: run_logout_Rejected logout_onError_world example_world_def example_storage_def
      getQueryData_def)

text \<open>
  C1, amended. The local teardown hangs on how the promise of the remote logout call
  settles, not on what it carries. In a browser, whenever the promise resolves, with
  whatever value \<open>d\<close> (also one that reports an error), every cache entry under the user
  namespace is removed, the five persisted keys are cleared and the address becomes
  \<^verbatim>\<open>/auth\<close>. When the promise rejects, the cache, the persisted store and the address
  are left as they were; the failure is written to the console and shown as a toast, and
  the error goes on to the caller.
\<close>

theorem logout_teardown:
  "(window_defined w \<longrightarrow>
      fst (useLogoutMutation (Resolved d) w) = Returned d
    \<and> (\<forall>key. prefix userQueryKeys_user key \<longrightarrow>
          queryCache (snd (useLogoutMutation (Resolved d) w)) key = None)
    \<and> localStorage (snd (useLogoutMutation (Resolved d) w)) ''user_profile'' = None
    \<and> localStorage (snd (useLogoutMutation (Resolved d) w)) ''auth_token'' = None
    \<and> localStorage (snd (useLogoutMutation (Resolved d) w)) ''refresh_token'' = None
    \<and> localStorage (snd (useLogoutMutation (Resolved d) w)) ''expires_in'' = None
    \<and> localStorage (snd (useLogoutMutation (Resolved d) w)) ''refresh_expires_in'' = None
    \<and> location_href (snd (useLogoutMutation (Resolved d) w)) = ''/auth'')
   \<and> fst (useLogoutMutation (Rejected e) w) = Threw e
   \<and> queryCache (snd (useLogoutMutation (Rejected e) w)) = queryCache w
   \<and> localStorage (snd (useLogoutMutation (Rejected e) w)) = localStorage w
   \<and> location_href (snd (useLogoutMutation (Rejected e) w)) = location_href w
   \<and> console (snd (useLogoutMutation (Rejected e) w)) = console w @ [Error_logout_failed e]
   \<and> toasts (snd (useLogoutMutation (Rejected e) w)) = toasts w @ [Toast_error_logout_failed]"
  by (simp add: run_logout_Rejected logout_onError_world run_logout_Resolved
      logout_onSuccess_browser removeQueries_def)

theorem logout_teardown_witness:
  "window_defined example_world
   \<and> fst (useLogoutMutation (Resolved (JObj [(''error'', JStr ''503'')])) example_world)
       = Returned (JObj [(''error'', JStr ''503'')])
   \<and> getQueryData userQueryKeys_profile
       (queryCache (snd (useLogoutMutation (Resolved (JObj [(''error'', JStr ''503'')])) example_world)))
       = None
   \<and> localStorage (snd (useLogoutMutation (Resolved (JObj [(''error'', JStr ''503'')])) example_world))
       ''auth_token'' = None
   \<and> location_href (snd (useLogoutMutation (Resolved (JObj [(''error'', JStr ''503'')])) example_world))
       = ''/auth''"
proof -
  have h: "window_defined example_world" by (simp add: example_world_def)
  have p: "prefix userQueryKeys_user userQueryKeys_profile"
    by (simp add: userQueryKeys_profile_def)
  from logout_teardown [of example_world "JObj [(''error'', JStr ''503'')]"] h p
  show ?thesis
    by (simp add: getQueryData_def)
qed

text \<open>
  C7, as stated, fails. Starting in a browser with nothing cached, two logouts in sequence
  whose remote call rejects both pass the error on to the caller and leave the access
  token in the persisted store.
\<close>

theorem logout_twice_counterexample:
  "queryCache example_cold_world = Map.empty
   \<and> fst (useLogoutMutation (Rejected (Error (Text ''503''))) example_cold_world)
       = Threw (Error (Text ''503''))
   \<and> localStorage
        (snd (useLogoutMutation (Rejected (Error (Text ''503'')))
           (snd (useLogoutMutation (Rejected (Error (Text ''503''))) example_cold_world))))
        ''auth_token'' = Some ''t1''"
  by (simp add: run_logout_Rejected logout_onError_world example_cold_world_def
      example_storage_def)

text \<open>
  C7, amended. In a browser, two logouts in sequence whose remote call resolves each time:
  neither raises, the second runs on a cache with no entry under the user namespace, and
  afterwards all five persisted keys are absent.
\<close>

theorem logout_twice:
  assumes "window_defined w"
  shows "fst (useLogoutMutation (Resolved d1) w) = Returned d1
   \<and> (\<forall>key. prefix userQueryKeys_user key \<longrightarrow>
         queryCache (snd (useLogoutMutation (Resolved d1) w)) key = None)
   \<and> fst (useLogoutMutation (Resolved d2) (snd (useLogoutMutation (Resolved d1) w)))
       = Returned d2
   \<and> map (localStorage
            (snd (useLogoutMutation (Resolved d2) (snd (useLogoutMutation (Resolved d1) w)))))
         [''user_profile'', ''auth_token'', ''refresh_token'', ''expires_in'',
          ''refresh_expires_in'']
       = [None, None, None, None, None]"
  using assms
  by (simp add: run_logout_Resolved logout_onSuccess_browser removeQueries_def)

theorem logout_twice_witness:
  "window_defined example_world
   \<and> fst (useLogoutMutation (Resolved JNull) example_world) = Returned JNull
   \<and> queryCache (snd (useLogoutMutation (Resolved JNull) example_world)) userQueryKeys_profile
       = None
   \<and> fst (useLogoutMutation (Resolved JNull) (snd (useLogoutMutation (Resolved JNull) example_world)))
       = Returned JNull
   \<and> map (localStorage
        (snd (useLogoutMutation (Resolved JNull) (snd (useLogoutMutation (Resolved JNull) example_world)))))
         [''user_profile'', ''auth_token'', ''refresh_token'', ''expires_in'',
          ''refresh_expires_in'']
       = [None, None, None, None, None]"
proof -
  have h: "window_defined example_world" by (simp add: example_world_def)
  have p: "prefix userQueryKeys_user userQueryKeys_profile"
    by (simp add: userQueryKeys_profile_def)
  from logout_twice [OF h, of JNull JNull] h p show ?thesis
    by simp
qed

subsection \<open>The optimistic update\<close>

text \<open>
  C2, as stated, fails, in two ways. With the profile of Bob cached, the handler invoked
  with \<^verbatim>\<open>{name: "Alice"}\<close> is suspended at its await before it has read or written
  the cache: a synchronous read in the tick of the invocation still returns Bob. And with
  nothing cached the handler writes nothing: also after it has completed, the read of the
  profile key is empty.
\<close>

theorem onMutate_optimistic_visibility_counterexample:
  "get_property example_update_alice ''name'' = Some (JStr ''Alice'')
   \<and> getQueryData userQueryKeys_profile
        (queryCache (useUpdateUserMutation_onMutate_start example_update_alice example_world))
      = Some [(''name'', JStr ''Bob''), (''email'', JStr ''b@x.com'')]
   \<and> getQueryData userQueryKeys_profile
        (queryCache (snd (useUpdateUserMutation_onMutate example_update_alice example_cold_world)))
      = None"
  by (simp add: get_property_def example_update_alice_def example_cold_world_def
      example_world_def example_bob_def
      useUpdateUserMutation_onMutate_def useUpdateUserMutation_onMutate_start_def
      useUpdateUserMutation_onMutate_resume_def getQueryData_def cancelQueries_def Let_def)

text \<open>
  C2, amended. In the tick of the invocation the handler has at most cancelled the fetches
  of the profile key (the library may start it later still): a synchronous read returns
  the payload from before the update. Once the
  optimistic step has completed (after the awaited cancellation, and before the remote
  update call is made), a read of the profile key returns, when a profile was cached, a
  profile in which every field \<open>k\<close> of the update has the update's value \<open>v\<close> (for
  \<^verbatim>\<open>{name: "Alice"}\<close>, the name is \<^verbatim>\<open>"Alice"\<close>); when no profile was cached, the
  read stays absent.
\<close>

theorem onMutate_optimistic_visibility:
  "getQueryData userQueryKeys_profile
      (queryCache (useUpdateUserMutation_onMutate_start u w))
     = getQueryData userQueryKeys_profile (queryCache w)
   \<and> useUpdateUserMutation_onMutate u w
       = useUpdateUserMutation_onMutate_resume u (useUpdateUserMutation_onMutate_start u w)
   \<and> (\<forall>p k v. getQueryData userQueryKeys_profile (queryCache w) = Some p
               \<and> wf_object u \<and> get_property u k = Some v
        \<longrightarrow> (\<exists>p'. getQueryData userQueryKeys_profile
                      (queryCache (snd (useUpdateUserMutation_onMutate u w))) = Some p'
                  \<and> get_property p' k = Some v))
   \<and> (getQueryData userQueryKeys_profile (queryCache w) = None
        \<longrightarrow> getQueryData userQueryKeys_profile
              (queryCache (snd (useUpdateUserMutation_onMutate u w))) = None)"
proof -
  have tick: "getQueryData userQueryKeys_profile
      (queryCache (useUpdateUserMutation_onMutate_start u w))
     = getQueryData userQueryKeys_profile (queryCache w)"
    by (simp add: useUpdateUserMutation_onMutate_start_def)
  have merged: "\<exists>p'. getQueryData userQueryKeys_profile
                      (queryCache (snd (useUpdateUserMutation_onMutate u w))) = Some p'
                  \<and> get_property p' k = Some v"
    if c: "getQueryData userQueryKeys_profile (queryCache w) = Some p"
      and wf: "wf_object u" and kv: "get_property u k = Some v" for p k v
  proof -
    have "map_of (object_literal_spread2 p u) = map_of (spread [] p) ++ map_of u"
      using wf by (simp add: object_literal_spread2_def wf_object_def map_of_spread)
    then have "get_property (object_literal_spread2 p u) k = Some v"
      using kv by (simp add: get_property_def map_add_def)
    then show ?thesis
      using c by (simp add: onMutate_cached)
  qed
  have absent: "getQueryData userQueryKeys_profile
              (queryCache (snd (useUpdateUserMutation_onMutate u w))) = None"
    if "getQueryData userQueryKeys_profile (queryCache w) = None"
    using that by (simp add: onMutate_not_cached)
  have split: "useUpdateUserMutation_onMutate u w
       = useUpdateUserMutation_onMutate_resume u (useUpdateUserMutation_onMutate_start u w)"
    by (simp add: useUpdateUserMutation_onMutate_def)
  from tick split merged absent show ?thesis
    by blast
qed

theorem onMutate_optimistic_visibility_witness:
  "getQueryData userQueryKeys_profile (queryCache example_world) = Some example_bob
   \<and> wf_object example_update_alice
   \<and> get_property example_update_alice ''name'' = Some (JStr ''Alice'')
   \<and> (\<exists>p'. getQueryData userQueryKeys_profile
               (queryCache (snd (useUpdateUserMutation_onMutate example_update_alice example_world)))
             = Some p'
           \<and> get_property p' ''name'' = Some (JStr ''Alice''))
   \<and> getQueryData userQueryKeys_profile (queryCache example_cold_world) = None
   \<and> getQueryData userQueryKeys_profile
        (queryCache (snd (useUpdateUserMutation_onMutate example_update_alice example_cold_world)))
      = None"
proof -
  have h1: "getQueryData userQueryKeys_profile (queryCache example_world) = Some example_bob"
    by (simp add: example_world_def getQueryData_def)
  have h2: "wf_object example_update_alice"
    by (simp add: wf_object_def example_update_alice_def)
  have h3: "get_property example_update_alice ''name'' = Some (JStr ''Alice'')"
    by (simp add: get_property_def example_update_alice_def)
  have h4: "getQueryData userQueryKeys_profile (queryCache example_cold_world) = None"
    by (simp add: example_cold_world_def getQueryData_def)
  from onMutate_optimistic_visibility [of example_update_alice example_world] h1 h2 h3
  have a: "\<exists>p'. getQueryData userQueryKeys_profile
               (queryCache (snd (useUpdateUserMutation_onMutate example_update_alice example_world)))
             = Some p'
           \<and> get_property p' ''name'' = Some (JStr ''Alice'')"
    by blast
  from onMutate_optimistic_visibility [of example_update_alice example_cold_world] h4
  have b: "getQueryData userQueryKeys_profile
        (queryCache (snd (useUpdateUserMutation_onMutate example_update_alice example_cold_world)))
      = None"
    by blast
  from a b h1 h2 h3 h4 show ?thesis by blast
qed

text \<open>
  What the code does when the promise of the remote update rejects with \<open>e\<close>: the error
  goes on to the caller, and afterwards the payload under every key of the cache is the
  one from before the update. When a profile \<open>p\<close> was cached, the read of the profile key
  returns \<open>p\<close> again; when none was cached, the error handler leaves the cache exactly as
  the optimistic step left it. The error handler by itself, on any world \<open>w'\<close> it may
  find when the failure arrives: with a snapshot in the context it makes the snapshot the
  cached profile, without one it does not change the cache.
\<close>

lemma update_rejected_rolls_back:
  "fst (useUpdateUserMutation stringify (Rejected e) u w) = Threw e
   \<and> (\<forall>key. getQueryData key (queryCache (snd (useUpdateUserMutation stringify (Rejected e) u w)))
             = getQueryData key (queryCache w))
   \<and> (case getQueryData userQueryKeys_profile (queryCache w) of
        Some p \<Rightarrow>
          getQueryData userQueryKeys_profile
            (queryCache (snd (useUpdateUserMutation stringify (Rejected e) u w))) = Some p
      | None \<Rightarrow>
          queryCache (snd (useUpdateUserMutation stringify (Rejected e) u w))
            = queryCache (snd (useUpdateUserMutation_onMutate u w)))
   \<and> getQueryData userQueryKeys_profile
        (queryCache (snd (useUpdateUserMutation_onError e u
           (Some \<lparr>previousUser = Some snapshot\<rparr>) w'))) = Some snapshot
   \<and> queryCache (snd (useUpdateUserMutation_onError e u (Some \<lparr>previousUser = None\<rparr>) w'))
       = queryCache w'"
proof (cases "getQueryData userQueryKeys_profile (queryCache w)")
  case None
  then show ?thesis
    by (simp add: run_update_Rejected onMutate_not_cached onError_cache)
next
  case (Some p)
  have "getQueryData key
          (setQueryData userQueryKeys_profile p
             (setQueryData userQueryKeys_profile (object_literal_spread2 p u)
                (cancelQueries userQueryKeys_profile (queryCache w))))
        = getQueryData key (queryCache w)" for key
    using Some by (cases "key = userQueryKeys_profile") (simp_all add: getQueryData_setQueryData_other)
  then show ?thesis
    using Some by (simp add: run_update_Rejected onMutate_cached onError_cache)
qed

text \<open>
  C3 holds of a remote update that fails by rejecting (the lemma above) and not of one
  that fails in the result: the request layer reports a failure as a resolved value with
  an \<^verbatim>\<open>error\<close> field, the form the fetcher tests on line 21, and \<^verbatim>\<open>mutationFn\<close>
  passes that value on untested. Starting from \<^verbatim>\<open>{name: "Bob", email: "b@x.com"}\<close>
  with the update \<^verbatim>\<open>{name: "Alice"}\<close> and the result
  \<^verbatim>\<open>{data: null, error: "500"}\<close>, the success handler runs: the cache keeps the
  optimistic profile, marked invalidated, the optimistic profile is persisted over the
  stored one, and the toast reports one updated field. Nothing is rolled back and no
  failure is written to the console.
\<close>

theorem update_failed_in_result_not_rolled_back:
  "getQueryData userQueryKeys_profile (queryCache example_world)
     = Some [(''name'', JStr ''Bob''), (''email'', JStr ''b@x.com'')]
   \<and> fst (useUpdateUserMutation example_stringify (Resolved example_update_result_error)
           example_update_alice example_world)
       = Returned (JObj [(''data'', JNull), (''error'', JStr ''500'')])
   \<and> getQueryData userQueryKeys_profile
        (queryCache (snd (useUpdateUserMutation example_stringify
           (Resolved example_update_result_error) example_update_alice example_world)))
       = Some [(''name'', JStr ''Alice''), (''email'', JStr ''b@x.com'')]
   \<and> localStorage (snd (useUpdateUserMutation example_stringify
           (Resolved example_update_result_error) example_update_alice example_world))
         ''user_profile''
       = Some (example_stringify [(''name'', JStr ''Alice''), (''email'', JStr ''b@x.com'')])
   \<and> toasts (snd (useUpdateUserMutation example_stringify
           (Resolved example_update_result_error) example_update_alice example_world))
       = [Toast_success_updated_fields 1]
   \<and> console (snd (useUpdateUserMutation example_stringify
           (Resolved example_update_result_error) example_update_alice example_world))
       = []"
proof -
  have h1: "getQueryData userQueryKeys_profile (queryCache example_world) = Some example_bob"
    by (simp add: example_world_def getQueryData_def)
  have lit: "object_literal_spread2 example_bob example_update_alice
      = [(''name'', JStr ''Alice''), (''email'', JStr ''b@x.com'')]"
    by (simp add: object_literal_spread2_def spread_def example_bob_def example_update_alice_def)
  define w1 where "w1 = snd (useUpdateUserMutation_onMutate example_update_alice example_world)"
  have w1: "w1 = example_world\<lparr>queryCache :=
      setQueryData userQueryKeys_profile
        [(''name'', JStr ''Alice''), (''email'', JStr ''b@x.com'')]
        (cancelQueries userQueryKeys_profile (queryCache example_world))\<rparr>"
    unfolding w1_def onMutate_cached [OF h1] lit by simp
  have cur: "getQueryData userQueryKeys_profile (queryCache w1)
      = Some [(''name'', JStr ''Alice''), (''email'', JStr ''b@x.com'')]"
    by (simp add: w1)
  have win: "window_defined w1"
    and room: "storage_has_room w1 ''user_profile''
        (example_stringify [(''name'', JStr ''Alice''), (''email'', JStr ''b@x.com'')])"
    and t0: "toasts w1 = []" and c0: "console w1 = []"
    by (simp_all add: w1 example_world_def)
  have len: "length (Object_keys example_update_alice) = 1"
    by (simp add: Object_keys_def example_update_alice_def)
  have run: "useUpdateUserMutation example_stringify (Resolved example_update_result_error)
           example_update_alice example_world
      = (Returned example_update_result_error,
         w1\<lparr>queryCache := invalidateQueries userQueryKeys_profile (queryCache w1),
            localStorage := (localStorage w1)(''user_profile'' \<mapsto>
              example_stringify [(''name'', JStr ''Alice''), (''email'', JStr ''b@x.com'')]),
            toasts := toasts w1 @ [Toast_success_updated_fields
              (length (Object_keys example_update_alice))]\<rparr>)"
    unfolding run_update_Resolved w1_def [symmetric]
    by (simp add: onSuccess_written [where stringify = example_stringify, OF cur win room])
  show ?thesis
    unfolding run
    by (simp add: h1 cur t0 c0 len example_update_result_error_def)
      (simp add: example_bob_def)
qed




subsection \<open>Reading the profile\<close>




text \<open>
  C6. \<^verbatim>\<open>useUserQuery\<close> passes the profile key with a staleness threshold of 5 minutes,
  an expiry threshold (\<^verbatim>\<open>gcTime\<close>) of 30 minutes, 3 retries, and no refetch when the
  window regains focus; the staleness threshold is below the expiry threshold. Under
  these options the read path of the specification never serves an entry whose last fetch
  is 30 minutes old or older, whatever payload it holds.
\<close>

theorem useUserQuery_configuration:
  "queryKey useUserQuery_options = [''user'', ''profile'']
   \<and> staleTime useUserQuery_options = 5 * (60 * 1000)
   \<and> gcTime useUserQuery_options = 30 * (60 * 1000)
   \<and> retry useUserQuery_options = 3
   \<and> \<not> refetchOnWindowFocus useUserQuery_options
   \<and> staleTime useUserQuery_options < gcTime useUserQuery_options
   \<and> (\<forall>now c. 30 * (60 * 1000) \<le> now - rc_lastFetched c
        \<longrightarrow> \<not> entry_fresh useUserQuery_options now c)"
  by (simp add: useUserQuery_options_def userQueryKeys_profile_def userQueryKeys_user_def
      entry_fresh_def)

theorem useUserQuery_configuration_witness:
  "rc_payload example_resource_cache = Some example_bob
   \<and> entry_fresh useUserQuery_options 299999 example_resource_cache
   \<and> \<not> entry_fresh useUserQuery_options 1800000 example_resource_cache"
proof -
  have age: "30 * (60 * 1000) \<le> (1800000::nat) - rc_lastFetched example_resource_cache"
    by (simp add: example_resource_cache_def)
  have young: "entry_fresh useUserQuery_options 299999 example_resource_cache"
    by (simp add: entry_fresh_def useUserQuery_options_def example_resource_cache_def)
  from useUserQuery_configuration age
  have old: "\<not> entry_fresh useUserQuery_options 1800000 example_resource_cache"
    by blast
  have "rc_payload example_resource_cache = Some example_bob"
    by (simp add: example_resource_cache_def)
  with young old show ?thesis
    by simp
qed

subsection \<open>The persisted profile\<close>

text \<open>
  C8, as stated, fails in one state of the store. A stored empty string cannot be parsed
  (the example parser rejects it, as \<^verbatim>\<open>JSON.parse\<close> does), yet the function tests
  the stored text for truth before parsing: it returns absent and writes no warning.
\<close>

theorem getLocalUserData_empty_string_counterexample:
  "example_parse '''' = Inl (SyntaxError '''')
   \<and> getLocalUserData example_parse (example_world\<lparr>localStorage := [''user_profile'' \<mapsto> '''']\<rparr>)
       = (Returned None, example_world\<lparr>localStorage := [''user_profile'' \<mapsto> '''']\<rparr>)
   \<and> console (snd (getLocalUserData example_parse
         (example_world\<lparr>localStorage := [''user_profile'' \<mapsto> '''']\<rparr>))) = []"
  by (simp add: example_parse_def getLocalUserData_def getLocalUserData_try_def
      example_world_def)

text \<open>
  C8, amended. In every state of the persisted store and for every behaviour of the
  parser, \<^verbatim>\<open>getLocalUserData\<close> returns and never throws. Outside a browser it returns
  absent. In a browser it returns absent when nothing is stored under
  \<^verbatim>\<open>user_profile\<close> and when the empty string is stored there, without a warning in
  either case; when a non-empty text is stored that the parser rejects with \<open>e\<close>, it
  returns absent and writes one warning that carries \<open>e\<close>; when the parser accepts the
  text, it returns the parsed value. The store is never changed.
\<close>

theorem getLocalUserData_total:
  "(\<exists>v. fst (getLocalUserData parse w) = Returned v)
   \<and> localStorage (snd (getLocalUserData parse w)) = localStorage w
   \<and> (\<not> window_defined w \<longrightarrow> getLocalUserData parse w = (Returned None, w))
   \<and> (window_defined w \<and> localStorage w ''user_profile'' = None
        \<longrightarrow> getLocalUserData parse w = (Returned None, w))
   \<and> (window_defined w \<and> localStorage w ''user_profile'' = Some ''''
        \<longrightarrow> getLocalUserData parse w = (Returned None, w))
   \<and> (\<forall>s e. window_defined w \<and> localStorage w ''user_profile'' = Some s \<and> s \<noteq> ''''
           \<and> parse s = Inl e
        \<longrightarrow> getLocalUserData parse w
            = (Returned None, w\<lparr>console := console w @ [Warn_parse_local_user_failed e]\<rparr>))
   \<and> (\<forall>s v. window_defined w \<and> localStorage w ''user_profile'' = Some s \<and> s \<noteq> ''''
           \<and> parse s = Inr v
        \<longrightarrow> getLocalUserData parse w = (Returned (Some v), w))"
  by (auto simp: getLocalUserData_def getLocalUserData_try_def console_log_def
      split: option.splits sum.splits completion.splits)

theorem getLocalUserData_total_witness:
  "getLocalUserData example_parse (example_world\<lparr>window_defined := False\<rparr>)
     = (Returned None, example_world\<lparr>window_defined := False\<rparr>)
   \<and> getLocalUserData example_parse (example_world\<lparr>localStorage := Map.empty\<rparr>)
     = (Returned None, example_world\<lparr>localStorage := Map.empty\<rparr>)
   \<and> getLocalUserData example_parse (example_world\<lparr>localStorage := [''user_profile'' \<mapsto> ''{oops'']\<rparr>)
     = (Returned None,
        example_world\<lparr>localStorage := [''user_profile'' \<mapsto> ''{oops''],
                      console := [Warn_parse_local_user_failed (SyntaxError ''{oops'')]\<rparr>)
   \<and> getLocalUserData example_parse example_world = (Returned (Some (JObj [])), example_world)"
proof -
  have a: "\<not> window_defined (example_world\<lparr>window_defined := False\<rparr>)"
    by simp
  have b: "window_defined (example_world\<lparr>localStorage := Map.empty\<rparr>)
      \<and> localStorage (example_world\<lparr>localStorage := Map.empty\<rparr>) ''user_profile'' = None"
    by (simp add: example_world_def)
  have c: "window_defined (example_world\<lparr>localStorage := [''user_profile'' \<mapsto> ''{oops'']\<rparr>)
      \<and> localStorage (example_world\<lparr>localStorage := [''user_profile'' \<mapsto> ''{oops'']\<rparr>)
           ''user_profile'' = Some ''{oops''
      \<and> ''{oops'' \<noteq> '''' \<and> example_parse ''{oops'' = Inl (SyntaxError ''{oops'')"
    by (simp add: example_world_def example_parse_def)
  have d: "window_defined example_world
      \<and> localStorage example_world ''user_profile'' = Some ''{}''
      \<and> ''{}'' \<noteq> '''' \<and> example_parse ''{}'' = Inr (JObj [])"
    by (simp add: example_world_def example_storage_def example_parse_def)
  have e: "console (example_world\<lparr>localStorage := [''user_profile'' \<mapsto> ''{oops'']\<rparr>) = []"
    by (simp add: example_world_def)
  from getLocalUserData_total [of example_parse "example_world\<lparr>window_defined := False\<rparr>"] a
  have 1: "getLocalUserData example_parse (example_world\<lparr>window_defined := False\<rparr>)
     = (Returned None, example_world\<lparr>window_defined := False\<rparr>)"
    by blast
  from getLocalUserData_total [of example_parse "example_world\<lparr>localStorage := Map.empty\<rparr>"] b
  have 2: "getLocalUserData example_parse (example_world\<lparr>localStorage := Map.empty\<rparr>)
     = (Returned None, example_world\<lparr>localStorage := Map.empty\<rparr>)"
    by blast
  from getLocalUserData_total
    [of example_parse "example_world\<lparr>localStorage := [''user_profile'' \<mapsto> ''{oops'']\<rparr>"] c
  have "getLocalUserData example_parse
          (example_world\<lparr>localStorage := [''user_profile'' \<mapsto> ''{oops'']\<rparr>)
     = (Returned None,
        (example_world\<lparr>localStorage := [''user_profile'' \<mapsto> ''{oops'']\<rparr>)
          \<lparr>console := console (example_world\<lparr>localStorage := [''user_profile'' \<mapsto> ''{oops'']\<rparr>)
              @ [Warn_parse_local_user_failed (SyntaxError ''{oops'')]\<rparr>)"
    by blast
  then have 3: "getLocalUserData example_parse
          (example_world\<lparr>localStorage := [''user_profile'' \<mapsto> ''{oops'']\<rparr>)
     = (Returned None,
        example_world\<lparr>localStorage := [''user_profile'' \<mapsto> ''{oops''],
                      console := [Warn_parse_local_user_failed (SyntaxError ''{oops'')]\<rparr>)"
    unfolding e by simp
  from getLocalUserData_total [of example_parse example_world] d
  have 4: "getLocalUserData example_parse example_world
     = (Returned (Some (JObj [])), example_world)"
    by blast
  from 1 2 3 4 show ?thesis by simp
qed

subsection \<open>Concurrent reads\<close>

text \<open>
  C9, on the read path of the specification. Reads \<open>rs\<close> (each a reader and the time of
  its read; at least one, so also any two reads R1 and R2) are issued while no fetch is
  in flight at the start and the entry is not fresh at the time of any of them, and the
  fetch has not settled between them. Then the fetcher has been called exactly once more
  than before, nothing has resolved while the fetch is in flight, and when the fetch
  succeeds with \<open>p\<close> no further call has been made, every one of the reads resolves to
  \<open>p\<close>, and \<open>p\<close> is the cached payload.
\<close>

theorem concurrent_reads_share_one_fetch:
  assumes "\<not> rc_inFlight c" and "rc_awaiting c = []"
    and "rs \<noteq> []"
    and "\<forall>(r, t) \<in> set rs. \<not> entry_fresh options t c"
  shows "rc_fetches (read_all options rs c) = Suc (rc_fetches c)
       \<and> rc_inFlight (read_all options rs c)
       \<and> rc_resolved (read_all options rs c) = rc_resolved c
       \<and> rc_fetches (fetch_settles (Resolved p) now (read_all options rs c)) = Suc (rc_fetches c)
       \<and> rc_resolved (fetch_settles (Resolved p) now (read_all options rs c))
           = rc_resolved c @ map (\<lambda>(r, t). (r, Returned p)) rs
       \<and> rc_payload (fetch_settles (Resolved p) now (read_all options rs c)) = Some p"
proof -
  obtain r t rs' where rs: "rs = (r, t) # rs'"
    using assms(3) by (cases rs) auto
  let ?c1 = "c\<lparr>rc_inFlight := True, rc_fetches := Suc (rc_fetches c),
                rc_awaiting := rc_awaiting c @ [r]\<rparr>"
  have first: "read_begin options r t c = ?c1"
    using assms(1,4) rs by (simp add: read_begin_def)
  have "\<forall>(r, t) \<in> set rs'. \<not> entry_fresh options t ?c1"
    using assms(4) rs by auto
  then have "read_all options rs' ?c1 = ?c1\<lparr>rc_awaiting := rc_awaiting ?c1 @ map fst rs'\<rparr>"
    by (intro read_all_inFlight) simp_all
  then have all: "read_all options rs c
      = c\<lparr>rc_inFlight := True, rc_fetches := Suc (rc_fetches c),
           rc_awaiting := map fst rs\<rparr>"
    using rs first assms(2) by simp
  show ?thesis
    unfolding all
    by (simp add: fetch_settles_def comp_def case_prod_unfold)
qed

theorem concurrent_reads_share_one_fetch_witness:
  "\<not> rc_inFlight example_empty_resource_cache
   \<and> \<not> entry_fresh useUserQuery_options 10 example_empty_resource_cache
   \<and> \<not> entry_fresh useUserQuery_options 20 example_empty_resource_cache
   \<and> rc_fetches (fetch_settles (Resolved example_bob) 30
        (read_all useUserQuery_options [(1, 10), (2, 20)] example_empty_resource_cache)) = 1
   \<and> rc_resolved (fetch_settles (Resolved example_bob) 30
        (read_all useUserQuery_options [(1, 10), (2, 20)] example_empty_resource_cache))
       = [(1, Returned example_bob), (2, Returned example_bob)]"
proof -
  have h1: "\<not> rc_inFlight example_empty_resource_cache"
    and h2: "rc_awaiting example_empty_resource_cache = []"
    by (simp_all add: example_empty_resource_cache_def)
  have h3: "[(1::nat, 10::nat), (2, 20)] \<noteq> []" by simp
  have f1: "\<not> entry_fresh useUserQuery_options 10 example_empty_resource_cache"
    and f2: "\<not> entry_fresh useUserQuery_options 20 example_empty_resource_cache"
    by (simp_all add: entry_fresh_def example_empty_resource_cache_def)
  then have h4: "\<forall>(r, t) \<in> set [(1::nat, 10::nat), (2, 20)].
      \<not> entry_fresh useUserQuery_options t example_empty_resource_cache"
    by simp
  have z: "rc_fetches example_empty_resource_cache = 0"
    "rc_resolved example_empty_resource_cache = []"
    by (simp_all add: example_empty_resource_cache_def)
  from concurrent_reads_share_one_fetch [OF h1 h2 h3 h4, of example_bob 30] h1 f1 f2
  show ?thesis
    by (simp add: z)
qed

subsection \<open>The merge\<close>

text \<open>
  C10. When a profile \<open>p\<close> is cached and the update is \<open>u\<close>, the optimistic step
  writes the object \<^verbatim>\<open>{ ...p, ...u }\<close> into the cache entry of the profile key. That
  object has every key once; a key of \<open>u\<close> has the value \<open>u\<close> gives it, and every other
  key has what \<open>p\<close> gives it (nothing, when \<open>p\<close> has no such field).
\<close>

theorem onMutate_writes_merge:
  assumes "getQueryData userQueryKeys_profile (queryCache w) = Some p"
    and "wf_object p" and "wf_object u"
  shows "getQueryData userQueryKeys_profile
           (queryCache (snd (useUpdateUserMutation_onMutate u w)))
         = Some (object_literal_spread2 p u)
       \<and> wf_object (object_literal_spread2 p u)
       \<and> (\<forall>k. get_property (object_literal_spread2 p u) k =
              (case get_property u k of Some v \<Rightarrow> Some v | None \<Rightarrow> get_property p k))"
proof -
  have "\<And>k. get_property (object_literal_spread2 p u) k =
              (case get_property u k of Some v \<Rightarrow> Some v | None \<Rightarrow> get_property p k)"
    using assms(2,3)
    by (simp add: get_property_def map_of_object_literal_spread2 map_add_def split: option.splits)
  then show ?thesis
    using assms(1) by (simp add: onMutate_cached wf_object_literal_spread2)
qed

theorem onMutate_writes_merge_witness:
  "getQueryData userQueryKeys_profile (queryCache example_world) = Some example_bob
   \<and> wf_object example_bob \<and> wf_object example_update_alice
   \<and> getQueryData userQueryKeys_profile
        (queryCache (snd (useUpdateUserMutation_onMutate example_update_alice example_world)))
      = Some [(''name'', JStr ''Alice''), (''email'', JStr ''b@x.com'')]
   \<and> get_property (object_literal_spread2 example_bob example_update_alice) ''name''
      = Some (JStr ''Alice'')
   \<and> get_property (object_literal_spread2 example_bob example_update_alice) ''email''
      = Some (JStr ''b@x.com'')"
proof -
  have h1: "getQueryData userQueryKeys_profile (queryCache example_world) = Some example_bob"
    by (simp add: example_world_def getQueryData_def)
  have h2: "wf_object example_bob" by (simp add: wf_object_def example_bob_def)
  have h3: "wf_object example_update_alice" by (simp add: wf_object_def example_update_alice_def)
  have lit: "object_literal_spread2 example_bob example_update_alice
      = [(''name'', JStr ''Alice''), (''email'', JStr ''b@x.com'')]"
    by (simp add: object_literal_spread2_def spread_def example_bob_def example_update_alice_def)
  have props: "get_property example_update_alice ''name'' = Some (JStr ''Alice'')"
     "get_property example_update_alice ''email'' = None"
     "get_property example_bob ''email'' = Some (JStr ''b@x.com'')"
    by (simp_all add: get_property_def example_bob_def example_update_alice_def)
  from onMutate_writes_merge [OF h1 h2 h3] h1 h2 h3 show ?thesis
    by (simp add: lit props)
qed

end
